theory Spec2Isabelle
  imports Main "HOL-Library.Word"
begin

section \<open>Python values used by the PDF hash extractor\<close>

text \<open>
  The embedded extractor of \<^verbatim>\<open>hashbaker.py\<close> (\<^verbatim>\<open>SecurityRevision\<close>,
  \<^verbatim>\<open>PdfHashExtractor\<close>, \<^verbatim>\<open>extract_pdf\<close>) works on objects handed over by the PDF
  library: the encryption dictionary, the document identifier and the security handler.
  Parsing the file is the library's work; the objects it returns, and the exceptions it
  raises when one of them cannot be had, are the inputs here.
\<close>

type_synonym byte = "8 word"
type_synonym bytes = "byte list"

text \<open>
  The objects that reach \<^verbatim>\<open>str(...)\<close> in \<^verbatim>\<open>parse\<close>: integers (Python's unbounded
  \<^verbatim>\<open>int\<close>, which the library's number objects are), strings, and \<^verbatim>\<open>None\<close>
  (what \<^verbatim>\<open>dict.get\<close> returns for a missing key).
\<close>

datatype pyobj = PyInt int | PyStr string | PyNone

text \<open>
  The exceptions: \<^verbatim>\<open>RuntimeError\<close>, which this code raises itself, \<^verbatim>\<open>KeyError\<close> and
  \<^verbatim>\<open>AttributeError\<close> of a subscript and of an attribute access, and the library's own.
\<close>

datatype pyerror =
  RuntimeError string | KeyError string | AttributeError string | PdfError string

subsection \<open>\<^verbatim>\<open>str\<close> on integers, \<^verbatim>\<open>bytes.hex\<close>, \<^verbatim>\<open>str.join\<close>\<close>

definition digits :: string where
  "digits = ''0123456789abcdef''"

fun str_nat :: "nat \<Rightarrow> string" where
  "str_nat n = (if n < 10 then [digits ! n] else str_nat (n div 10) @ [digits ! (n mod 10)])"

declare str_nat.simps [simp del]

definition str_int :: "int \<Rightarrow> string" where
  "str_int i = (if i < 0 then CHR ''-'' # str_nat (nat (- i)) else str_nat (nat i))"

fun str :: "pyobj \<Rightarrow> string" where
  "str (PyInt i) = str_int i"
| "str (PyStr s) = s"
| "str PyNone = ''None''"

definition hex_byte :: "byte \<Rightarrow> string" where
  "hex_byte b = [digits ! (unat b div 16), digits ! (unat b mod 16)]"

definition hex :: "bytes \<Rightarrow> string" where
  "hex data = concat (map hex_byte data)"

fun join :: "string \<Rightarrow> string list \<Rightarrow> string" where
  "join sep [] = []"
| "join sep [x] = x"
| "join sep (x # y # ys) = x @ sep @ join sep (y # ys)"

subsection \<open>Dictionaries\<close>

type_synonym pydict = "(string \<times> pyobj) list"

text \<open>\<^verbatim>\<open>d.get(key, default)\<close> and \<^verbatim>\<open>d[key]\<close>, which raises \<^verbatim>\<open>KeyError\<close>.\<close>

definition dict_get :: "pydict \<Rightarrow> string \<Rightarrow> pyobj \<Rightarrow> pyobj" where
  "dict_get d key dflt = (case map_of d key of Some v \<Rightarrow> v | None \<Rightarrow> dflt)"

definition dict_getitem :: "pydict \<Rightarrow> string \<Rightarrow> pyerror + pyobj" where
  "dict_getitem d key = (case map_of d key of Some v \<Rightarrow> Inr v | None \<Rightarrow> Inl (KeyError key))"

section \<open>\<^verbatim>\<open>SecurityRevision\<close>\<close>

definition revisions :: "(int \<times> nat) list" where
  "revisions = [(2, 32), (3, 32), (4, 32), (5, 48), (6, 48)]"

text \<open>
  \<^verbatim>\<open>cls.revisions.get(revision, 48)\<close>: the table has integer keys only, so any other
  object misses it and gets the default.
\<close>

definition get_key_length :: "pyobj \<Rightarrow> nat" where
  "get_key_length revision =
     (case revision of
        PyInt r \<Rightarrow> (case map_of revisions r of Some n \<Rightarrow> n | None \<Rightarrow> 48)
      | _ \<Rightarrow> 48)"

section \<open>\<^verbatim>\<open>PdfHashExtractor\<close>\<close>

text \<open>
  The security handler as this code reads it: the four byte attributes, each possibly
  \<^verbatim>\<open>None\<close>, and the \<^verbatim>\<open>encrypt_metadata\<close> flag.
\<close>

record security_handler =
  udata :: "bytes option"
  odata :: "bytes option"
  oeseed :: "bytes option"
  ueseed :: "bytes option"
  sh_encrypt_metadata :: bool

text \<open>
  The reader object. \<^verbatim>\<open>encrypt_dict\<close> is \<^verbatim>\<open>None\<close> for an unencrypted file.
  \<^verbatim>\<open>document_id\<close> and \<^verbatim>\<open>security_handler\<close> are properties of the library: reading
  one either gives the value or raises. For \<^verbatim>\<open>security_handler\<close> the error stands for
  whatever stops an attribute of the handler from being read: the library cannot build
  a handler from the encryption dictionary, or there is none.
\<close>

record PdfFileReader =
  pdf_encrypt_dict :: "pydict option"
  pdf_document_id :: "pyerror + bytes \<times> bytes"
  pdf_security_handler :: "pyerror + security_handler"

record PdfHashExtractor =
  pdf :: PdfFileReader
  encrypt_dict :: pydict
  algorithm :: pyobj
  length_attr :: pyobj
  permissions :: pyobj
  revision :: pyobj

text \<open>
  \<^verbatim>\<open>__init__\<close>. Its argument is the outcome of \<^verbatim>\<open>PdfFileReader(doc, strict=strict)\<close>.
  \<^verbatim>\<open>not self.encrypt_dict\<close> holds for \<^verbatim>\<open>None\<close> and for an empty dictionary. The
  security handler is not touched here.
\<close>

definition PdfHashExtractor_init :: "pyerror + PdfFileReader \<Rightarrow> pyerror + PdfHashExtractor" where
  "PdfHashExtractor_init reader =
     (case reader of
        Inl e \<Rightarrow> Inl e
      | Inr p \<Rightarrow>
          (case pdf_encrypt_dict p of
             None \<Rightarrow> Inl (RuntimeError ''File not encrypted'')
           | Some d \<Rightarrow>
               if d = [] then Inl (RuntimeError ''File not encrypted'')
               else
                 (let v_alg = dict_get d ''/V'' PyNone;
                      v_len = dict_get d ''/Length'' (PyInt 40)
                  in case dict_getitem d ''/P'' of
                       Inl e \<Rightarrow> Inl e
                     | Inr v_perm \<Rightarrow>
                         (case dict_getitem d ''/R'' of
                            Inl e \<Rightarrow> Inl e
                          | Inr v_rev \<Rightarrow>
                              Inr \<lparr>pdf = p, encrypt_dict = d, algorithm = v_alg,
                                   length_attr = v_len, permissions = v_perm,
                                   revision = v_rev\<rparr>))))"

text \<open>The properties \<^verbatim>\<open>document_id\<close> and \<^verbatim>\<open>encrypt_metadata\<close>.\<close>

definition document_id :: "PdfHashExtractor \<Rightarrow> pyerror + bytes" where
  "document_id self = (case pdf_document_id (pdf self) of Inl e \<Rightarrow> Inl e | Inr i \<Rightarrow> Inr (fst i))"

definition encrypt_metadata :: "PdfHashExtractor \<Rightarrow> pyerror + string" where
  "encrypt_metadata self =
     (case pdf_security_handler (pdf self) of
        Inl e \<Rightarrow> Inl e
      | Inr handler \<Rightarrow> Inr (str_int (if sh_encrypt_metadata handler then 1 else 0)))"

text \<open>
  \<^verbatim>\<open>get_passwords\<close>. An attribute name is the selector of that attribute, so
  \<^verbatim>\<open>getattr(handler, key)\<close> is \<open>key handler\<close>. One round of the loop reads the handler,
  which may raise, tests the value (\<^verbatim>\<open>None\<close> and \<^verbatim>\<open>b""\<close> are false), cuts it and
  extends the list.
\<close>

definition keys :: "(security_handler \<Rightarrow> bytes option) list" where
  "keys = [udata, odata, oeseed, ueseed]"

definition passwords_step :: "nat \<Rightarrow> bytes option \<Rightarrow> string list \<Rightarrow> string list" where
  "passwords_step max_key_length attr passwords =
     (case attr of
        None \<Rightarrow> passwords
      | Some data \<Rightarrow>
          if data = [] then passwords
          else (let data' = take max_key_length data
                in passwords @ [str_int (int (length data')), hex data']))"

fun passwords_loop ::
  "PdfHashExtractor \<Rightarrow> nat \<Rightarrow> (security_handler \<Rightarrow> bytes option) list \<Rightarrow> string list
   \<Rightarrow> pyerror + string list" where
  "passwords_loop self max_key_length [] passwords = Inr passwords"
| "passwords_loop self max_key_length (key # ks) passwords =
     (case pdf_security_handler (pdf self) of
        Inl e \<Rightarrow> Inl e
      | Inr handler \<Rightarrow>
          passwords_loop self max_key_length ks
            (passwords_step max_key_length (key handler) passwords))"

definition passwords_list :: "PdfHashExtractor \<Rightarrow> pyerror + string list" where
  "passwords_list self = passwords_loop self (get_key_length (revision self)) keys []"

definition get_passwords :: "PdfHashExtractor \<Rightarrow> pyerror + string" where
  "get_passwords self =
     (case passwords_list self of
        Inl e \<Rightarrow> Inl e
      | Inr passwords \<Rightarrow> Inr (join ''*'' passwords))"

text \<open>
  \<^verbatim>\<open>parse\<close>: \<^verbatim>\<open>get_passwords\<close> first, then the eight fields from left to right,
  then \<^verbatim>\<open>"*".join(map(str, fields))\<close>.
\<close>

definition parse_fields :: "PdfHashExtractor \<Rightarrow> pyerror + pyobj list" where
  "parse_fields self =
     (case get_passwords self of
        Inl e \<Rightarrow> Inl e
      | Inr passwords \<Rightarrow>
          (case encrypt_metadata self of
             Inl e \<Rightarrow> Inl e
           | Inr em \<Rightarrow>
               (case document_id self of
                  Inl e \<Rightarrow> Inl e
                | Inr did \<Rightarrow>
                    Inr [PyStr (''$pdf$'' @ str (algorithm self)),
                         revision self,
                         length_attr self,
                         permissions self,
                         PyStr em,
                         PyInt (int (length did)),
                         PyStr (hex did),
                         PyStr passwords])))"

definition parse :: "PdfHashExtractor \<Rightarrow> pyerror + string" where
  "parse self =
     (case parse_fields self of
        Inl e \<Rightarrow> Inl e
      | Inr fs \<Rightarrow> Inr (join ''*'' (map str fs)))"

text \<open>
  \<^verbatim>\<open>extract_pdf\<close>: every exception becomes \<^verbatim>\<open>None\<close>. The result here is the text
  handed to \<^verbatim>\<open>write_to_unified_hashfile\<close>, when that call is reached.
\<close>

definition extract_pdf :: "bool \<Rightarrow> pyerror + PdfFileReader \<Rightarrow> string option" where
  "extract_pdf have_pyhanko reader =
     (if \<not> have_pyhanko then None
      else case PdfHashExtractor_init reader of
             Inl e \<Rightarrow> None
           | Inr extractor \<Rightarrow>
               (case parse extractor of Inl e \<Rightarrow> None | Inr txt \<Rightarrow> Some txt))"

section \<open>Notions used to state the properties\<close>

text \<open>
  Reading a decimal numeral back, as Python's \<^verbatim>\<open>int(s)\<close> does on the strings that
  \<^verbatim>\<open>str\<close> produces: it says which number a decimal field of the fingerprint denotes.
\<close>

definition digit_val :: "char \<Rightarrow> nat" where
  "digit_val c = of_char c - 48"

definition nat_of_decimal :: "string \<Rightarrow> nat" where
  "nat_of_decimal s = foldl (\<lambda>acc c. 10 * acc + digit_val c) 0 s"

definition int_of_decimal :: "string \<Rightarrow> int" where
  "int_of_decimal s =
     (case s of
        [] \<Rightarrow> 0
      | c # cs \<Rightarrow> if c = CHR ''-'' then - int (nat_of_decimal cs) else int (nat_of_decimal s))"

text \<open>
  The attribute values of a handler that pass the test \<^verbatim>\<open>if data := getattr(...)\<close>,
  in the order of \<open>keys\<close>, as they are before the cut.
\<close>

definition present_fields :: "security_handler \<Rightarrow> bytes list" where
  "present_fields handler =
     filter (\<lambda>data. data \<noteq> []) (List.map_filter (\<lambda>key. key handler) keys)"

subsection \<open>Sample documents\<close>

text \<open>
  A revision 4 document: \<^verbatim>\<open>/V 2 /R 4 /Length 128 /P -3904\<close>, metadata not encrypted,
  identifier \<^verbatim>\<open>DEADBEEF\<close>, \<^verbatim>\<open>/O\<close> of 32 bytes \<^verbatim>\<open>0x11\<close> and \<^verbatim>\<open>/U\<close> of 32
  bytes \<^verbatim>\<open>0x22\<close>.
\<close>

definition handler_r4 :: security_handler where
  "handler_r4 =
     \<lparr>udata = Some (replicate 32 0x22), odata = Some (replicate 32 0x11),
      oeseed = None, ueseed = None, sh_encrypt_metadata = False\<rparr>"

definition dict_r4 :: pydict where
  "dict_r4 = [(''/V'', PyInt 2), (''/R'', PyInt 4), (''/Length'', PyInt 128), (''/P'', PyInt (- 3904))]"

definition reader_r4 :: PdfFileReader where
  "reader_r4 =
     \<lparr>pdf_encrypt_dict = Some dict_r4,
      pdf_document_id = Inr ([0xDE, 0xAD, 0xBE, 0xEF], [0x01]),
      pdf_security_handler = Inr handler_r4\<rparr>"

definition extractor_r4 :: PdfHashExtractor where
  "extractor_r4 =
     \<lparr>pdf = reader_r4, encrypt_dict = dict_r4, algorithm = PyInt 2, length_attr = PyInt 128,
      permissions = PyInt (- 3904), revision = PyInt 4\<rparr>"

text \<open>
  The same extractor over a handler whose user data are 40 bytes long, more than the 32
  of revision 4.
\<close>

definition handler_overlong :: security_handler where
  "handler_overlong = handler_r4\<lparr>udata := Some (replicate 40 0x22)\<rparr>"

definition extractor_overlong :: PdfHashExtractor where
  "extractor_overlong =
     extractor_r4\<lparr>pdf := reader_r4\<lparr>pdf_security_handler := Inr handler_overlong\<rparr>\<rparr>"

text \<open>A document without \<^verbatim>\<open>/Encrypt\<close>: no encryption dictionary and no security handler.\<close>

definition reader_plain :: PdfFileReader where
  "reader_plain =
     \<lparr>pdf_encrypt_dict = None,
      pdf_document_id = Inr ([0x1A, 0x2B, 0x3C, 0x4D], [0x1A, 0x2B, 0x3C, 0x4D]),
      pdf_security_handler = Inl (AttributeError ''udata'')\<rparr>"

text \<open>
  A revision 6 document: the handler holds \<^verbatim>\<open>/U\<close> and \<^verbatim>\<open>/O\<close> of 48 bytes and the
  seeds \<^verbatim>\<open>/OE\<close> and \<^verbatim>\<open>/UE\<close> of 32 bytes.
\<close>

definition handler_r6 :: security_handler where
  "handler_r6 =
     \<lparr>udata = Some (replicate 48 0x22), odata = Some (replicate 48 0x11),
      oeseed = Some (replicate 32 0xAA), ueseed = Some (replicate 32 0xBB),
      sh_encrypt_metadata = True\<rparr>"

definition dict_r6 :: pydict where
  "dict_r6 = [(''/V'', PyInt 5), (''/R'', PyInt 6), (''/Length'', PyInt 256), (''/P'', PyInt (- 1084))]"

definition reader_r6 :: PdfFileReader where
  "reader_r6 =
     \<lparr>pdf_encrypt_dict = Some dict_r6,
      pdf_document_id = Inr ([0x1A, 0x2B, 0x3C, 0x4D], [0x1A, 0x2B, 0x3C, 0x4D]),
      pdf_security_handler = Inr handler_r6\<rparr>"

definition extractor_r6 :: PdfHashExtractor where
  "extractor_r6 =
     \<lparr>pdf = reader_r6, encrypt_dict = dict_r6, algorithm = PyInt 5, length_attr = PyInt 256,
      permissions = PyInt (- 1084), revision = PyInt 6\<rparr>"

text \<open>The revision 4 handler with a seed that is present and empty.\<close>

definition handler_r4_empty_seed :: security_handler where
  "handler_r4_empty_seed = handler_r4\<lparr>oeseed := Some []\<rparr>"

definition extractor_r4_empty_seed :: PdfHashExtractor where
  "extractor_r4_empty_seed =
     extractor_r4\<lparr>pdf := reader_r4\<lparr>pdf_security_handler := Inr handler_r4_empty_seed\<rparr>\<rparr>"

text \<open>A revision 6 handler with only the owner seed, 16 bytes \<^verbatim>\<open>0xAA\<close>.\<close>

definition handler_oe_only :: security_handler where
  "handler_oe_only =
     \<lparr>udata = None, odata = None, oeseed = Some (replicate 16 0xAA), ueseed = None,
      sh_encrypt_metadata = True\<rparr>"

definition extractor_r6_oe_only :: PdfHashExtractor where
  "extractor_r6_oe_only =
     extractor_r6\<lparr>pdf := reader_r6\<lparr>pdf_security_handler := Inr handler_oe_only\<rparr>\<rparr>"



definition dict_no_p :: pydict where
  "dict_no_p = [(''/V'', PyInt 2), (''/Length'', PyInt 128)]"



definition reader_no_p :: PdfFileReader where
  "reader_no_p = reader_r4\<lparr>pdf_encrypt_dict := Some dict_no_p\<rparr>"

text \<open>
  The revision 4 document read with one more dictionary entry and another second
  identifier: parts that the extractor never looks at.
\<close>

definition reader_r4_variant :: PdfFileReader where
  "reader_r4_variant =
     reader_r4\<lparr>pdf_encrypt_dict := Some ((''/Filter'', PyStr ''/Standard'') # dict_r4),
               pdf_document_id := Inr ([0xDE, 0xAD, 0xBE, 0xEF], [0x02, 0x03])\<rparr>"

section \<open>Properties\<close>

subsection \<open>Decimal and hexadecimal strings\<close>

lemma length_hex_byte: "length (hex_byte b) = 2"
  by (simp add: hex_byte_def)

lemma length_hex: "length (hex data) = 2 * length data"
  by (induction data) (simp_all add: hex_def length_hex_byte)


lemma digits_nth_dec: "n < 10 \<Longrightarrow> digits ! n \<in> set ''0123456789''"
proof -
  assume "n < 10"
  then have "n \<in> {0, 1, 2, 3, 4, 5, 6, 7, 8, 9}" by auto
  then show ?thesis by (auto simp: digits_def)
qed



lemma str_nat_chars: "set (str_nat n) \<subseteq> set ''0123456789''"
proof (induction n rule: str_nat.induct)
  case (1 n)
  show ?case
  proof (cases "n < 10")
    case True
    then show ?thesis using digits_nth_dec [of n] by (subst str_nat.simps) simp
  next
    case False
    have "n mod 10 < 10" by simp
    then have "digits ! (n mod 10) \<in> set ''0123456789''" by (rule digits_nth_dec)
    with False 1 show ?thesis by (subst str_nat.simps) simp
  qed
qed

lemma str_nat_nonempty: "str_nat n \<noteq> []"
  by (subst str_nat.simps) simp

lemma str_int_int: "str_int (int n) = str_nat n"
  by (simp add: str_int_def)

lemma digit_val_digits: "n < 10 \<Longrightarrow> digit_val (digits ! n) = n"
proof -
  assume "n < 10"
  then have "n \<in> {0, 1, 2, 3, 4, 5, 6, 7, 8, 9}" by auto
  then show ?thesis by (auto simp: digits_def digit_val_def)
qed

lemma nat_of_decimal_snoc: "nat_of_decimal (s @ [c]) = 10 * nat_of_decimal s + digit_val c"
  by (simp add: nat_of_decimal_def)

lemma nat_of_decimal_str_nat: "nat_of_decimal (str_nat n) = n"
proof (induction n rule: str_nat.induct)
  case (1 n)
  show ?case
  proof (cases "n < 10")
    case True
    then show ?thesis
      by (subst str_nat.simps) (simp add: nat_of_decimal_def digit_val_digits)
  next
    case False
    with 1 have "nat_of_decimal (str_nat (n div 10)) = n div 10" by simp
    with False show ?thesis
      by (subst str_nat.simps) (simp add: nat_of_decimal_snoc digit_val_digits)
  qed
qed

lemma hd_str_nat: "hd (str_nat n) \<in> set ''0123456789''"
  using str_nat_chars [of n] str_nat_nonempty [of n] hd_in_set by blast

lemma int_of_decimal_str_int: "int_of_decimal (str_int i) = i"
proof (cases "i < 0")
  case True
  then show ?thesis by (simp add: str_int_def int_of_decimal_def nat_of_decimal_str_nat)
next
  case False
  obtain c cs where s: "str_nat (nat i) = c # cs"
    using str_nat_nonempty [of "nat i"] by (cases "str_nat (nat i)") auto
  have "c \<in> set ''0123456789''" using hd_str_nat [of "nat i"] s by simp
  then have "c \<noteq> CHR ''-''" by auto
  moreover have "nat_of_decimal (c # cs) = nat i"
    using nat_of_decimal_str_nat [of "nat i"] s by simp
  ultimately show ?thesis using False s by (simp add: str_int_def int_of_decimal_def)
qed

subsection \<open>Joining\<close>




subsection \<open>The loop of \<^verbatim>\<open>get_passwords\<close>\<close>

lemma passwords_step_append:
  "passwords_step m a acc = acc @ passwords_step m a []"
  by (simp add: passwords_step_def Let_def split: option.splits)

lemma passwords_loop_Inr:
  "pdf_security_handler (pdf self) = Inr handler \<Longrightarrow>
   passwords_loop self m ks acc =
     Inr (foldl (\<lambda>passwords key. passwords_step m (key handler) passwords) acc ks)"
  by (induction ks arbitrary: acc) simp_all

lemma passwords_list_Inl:
  "pdf_security_handler (pdf self) = Inl e \<Longrightarrow> passwords_list self = Inl e"
  by (simp add: passwords_list_def keys_def)

lemma passwords_list_unfold:
  assumes "pdf_security_handler (pdf self) = Inr handler"
  shows "passwords_list self =
     Inr (passwords_step (get_key_length (revision self)) (udata handler) []
        @ passwords_step (get_key_length (revision self)) (odata handler) []
        @ passwords_step (get_key_length (revision self)) (oeseed handler) []
        @ passwords_step (get_key_length (revision self)) (ueseed handler) [])"
proof -
  let ?m = "get_key_length (revision self)"
  have "foldl (\<lambda>passwords key. passwords_step ?m (key handler) passwords) [] keys =
        passwords_step ?m (udata handler) [] @ passwords_step ?m (odata handler) []
      @ passwords_step ?m (oeseed handler) [] @ passwords_step ?m (ueseed handler) []"
    unfolding keys_def foldl_Cons foldl_Nil
    by (metis append.assoc passwords_step_append)
  then show ?thesis
    by (simp add: passwords_list_def passwords_loop_Inr [OF assms])
qed

lemma passwords_step_present:
  "passwords_step m a [] =
     concat (map (\<lambda>data. [str_nat (length (take m data)), hex (take m data)])
       (filter (\<lambda>data. data \<noteq> []) (List.map_filter (\<lambda>x. x) [a])))"
  by (cases a) (simp_all add: passwords_step_def Let_def List.map_filter_simps str_int_int)

lemma present_fields_unfold:
  "present_fields handler =
     filter (\<lambda>data. data \<noteq> []) (List.map_filter (\<lambda>x. x) [udata handler])
   @ filter (\<lambda>data. data \<noteq> []) (List.map_filter (\<lambda>x. x) [odata handler])
   @ filter (\<lambda>data. data \<noteq> []) (List.map_filter (\<lambda>x. x) [oeseed handler])
   @ filter (\<lambda>data. data \<noteq> []) (List.map_filter (\<lambda>x. x) [ueseed handler])"
  by (simp add: present_fields_def keys_def List.map_filter_simps split: option.splits)

lemma passwords_list_present:
  assumes "pdf_security_handler (pdf self) = Inr handler"
  shows "passwords_list self =
     Inr (concat (map (\<lambda>data. [str_nat (length (take (get_key_length (revision self)) data)),
                               hex (take (get_key_length (revision self)) data)])
            (present_fields handler)))"
  by (simp only: passwords_list_unfold [OF assms] present_fields_unfold passwords_step_present
        map_append concat_append)

lemma passwords_list_InrD:
  assumes "passwords_list self = Inr ps"
  shows "\<exists>handler. pdf_security_handler (pdf self) = Inr handler"
proof (cases "pdf_security_handler (pdf self)")
  case (Inl e)
  with assms passwords_list_Inl [OF Inl] show ?thesis by simp
next
  case (Inr handler)
  then show ?thesis by blast
qed

lemma present_fields_nonempty: "data \<in> set (present_fields handler) \<Longrightarrow> data \<noteq> []"
  by (simp add: present_fields_def)

lemma get_key_length_table:
  "get_key_length (PyInt r) = (if r \<in> {2, 3, 4} then 32 else if r \<in> {5, 6} then 48 else 48)"
  by (simp add: get_key_length_def revisions_def)

lemma get_key_length_cases: "get_key_length rv = 32 \<or> get_key_length rv = 48"
  by (cases rv) (simp_all add: get_key_length_def revisions_def)

lemma get_key_length_other: "get_key_length (PyStr s) = 48" "get_key_length PyNone = 48"
  by (simp_all add: get_key_length_def)

lemma get_key_length_pos: "0 < get_key_length rv"
  using get_key_length_cases [of rv] by auto

lemma take_key_length_nonempty: "data \<noteq> [] \<Longrightarrow> take (get_key_length rv) data \<noteq> []"
  using get_key_length_pos [of rv] by (cases data) (auto simp: take_Cons')

lemma nat_of_decimal_zero: "nat_of_decimal ''0'' = 0"
  by (simp add: nat_of_decimal_def digit_val_def)

lemma zero_not_emitted:
  assumes "passwords_list self = Inr ps"
  shows "''0'' \<notin> set ps"
proof
  let ?m = "get_key_length (revision self)"
  from assms obtain handler where h: "pdf_security_handler (pdf self) = Inr handler"
    using passwords_list_InrD by blast
  from passwords_list_present [OF h] assms
  have ps: "ps = concat (map (\<lambda>data. [str_nat (length (take ?m data)), hex (take ?m data)])
            (present_fields handler))"
    by simp
  assume "''0'' \<in> set ps"
  then obtain data where d: "data \<in> set (present_fields handler)"
    and z: "''0'' = str_nat (length (take ?m data)) \<or> ''0'' = hex (take ?m data)"
    unfolding ps by auto
  from d have "data \<noteq> []" by (rule present_fields_nonempty)
  then have ne: "take ?m data \<noteq> []" by (rule take_key_length_nonempty)
  from z show False
  proof
    assume "''0'' = str_nat (length (take ?m data))"
    then have "nat_of_decimal ''0'' = length (take ?m data)"
      by (simp only: nat_of_decimal_str_nat)
    then have "length (take ?m data) = 0" by (metis nat_of_decimal_zero)
    then have "take ?m data = []" by (simp only: length_0_conv)
    with ne show False by contradiction
  next
    assume "''0'' = hex (take ?m data)"
    then have "length ''0'' = 2 * length (take ?m data)" by (simp only: length_hex)
    then show False by simp
  qed
qed

lemma passwords_step_None: "passwords_step m None passwords = passwords"
  by (simp add: passwords_step_def)

lemma passwords_step_Some:
  "data \<noteq> [] \<Longrightarrow>
   passwords_step m (Some data) passwords =
     passwords @ [str_nat (length (take m data)), hex (take m data)]"
  by (simp add: passwords_step_def Let_def str_int_int)

lemma passwords_step_eq_Nil: "passwords_step m a [] = [] \<longleftrightarrow> a = None \<or> a = Some []"
  by (cases a) (simp_all add: passwords_step_def Let_def)




lemma concat_pairs_length: "length (concat (map (\<lambda>d. [f d, g d]) ds)) = 2 * length ds"
  by (induction ds) simp_all

lemma concat_pairs_nth:
  "i < length ds \<Longrightarrow>
   concat (map (\<lambda>d. [f d, g d]) ds) ! (2 * i) = f (ds ! i)
   \<and> concat (map (\<lambda>d. [f d, g d]) ds) ! (2 * i + 1) = g (ds ! i)"
proof (induction ds arbitrary: i)
  case Nil
  then show ?case by simp
next
  case (Cons d ds)
  show ?case
  proof (cases i)
    case 0
    then show ?thesis by simp
  next
    case (Suc j)
    with Cons.prems have "j < length ds" by simp
    from Cons.IH [OF this] Suc show ?thesis by simp
  qed
qed

subsection \<open>Truncation\<close>

text \<open>
  C1. \<^verbatim>\<open>get_key_length\<close> maps revisions 2, 3 and 4 to 32, revisions 5 and 6 to 48 and
  every other value to 48. Every byte field that is emitted is first cut to that many
  bytes: when the handler can be read, the list built by \<^verbatim>\<open>get_passwords\<close> holds, for
  each field that passes the test, the decimal of \<open>min (length data) max_key_length\<close>
  and the hex of the cut field, whose byte count (half its characters) is that minimum.
\<close>

theorem truncation_invariant:
  "get_key_length (PyInt r) = (if r \<in> {2, 3, 4} then 32 else if r \<in> {5, 6} then 48 else 48)
   \<and> get_key_length (PyStr s) = 48
   \<and> get_key_length PyNone = 48
   \<and> (pdf_security_handler (pdf self) = Inr handler \<longrightarrow>
        passwords_list self =
          Inr (concat (map (\<lambda>data. [str_nat (min (length data) (get_key_length (revision self))),
                                    hex (take (get_key_length (revision self)) data)])
                 (present_fields handler))))
   \<and> length (hex (take (get_key_length (revision self)) data)) =
       2 * min (length data) (get_key_length (revision self))"
  by (simp add: get_key_length_table get_key_length_other passwords_list_present length_hex)

theorem truncation_invariant_witness:
  "get_key_length (PyInt 4) = 32
   \<and> pdf_security_handler (pdf extractor_overlong) = Inr handler_overlong
   \<and> udata handler_overlong = Some (replicate 40 0x22)
   \<and> passwords_list extractor_overlong =
       Inr [''32'', hex (replicate 32 0x22), ''32'', hex (replicate 32 0x11)]
   \<and> length (hex (take (get_key_length (revision extractor_overlong)) (replicate 40 0x22))) = 64"
proof -
  have h: "pdf_security_handler (pdf extractor_overlong) = Inr handler_overlong"
    by (simp add: extractor_overlong_def)
  have u: "udata handler_overlong = Some (replicate 40 0x22)"
    by (simp add: handler_overlong_def)
  have p: "present_fields handler_overlong = [replicate 40 0x22, replicate 32 0x11]"
    by code_simp
  have k: "get_key_length (revision extractor_overlong) = 32"
    by code_simp
  have n: "str_nat 32 = ''32''"
    by code_simp
  show ?thesis
    using truncation_invariant
      [where r = 4 and s = "[]" and self = extractor_overlong and handler = handler_overlong
         and data = "replicate 40 0x22"] h u
    by (simp add: p k n)
qed

subsection \<open>Empty fields\<close>

text \<open>
  C9. A field that is present and empty is skipped like an absent one: replacing every
  empty attribute of the handler by \<^verbatim>\<open>None\<close> leaves the result of \<^verbatim>\<open>get_passwords\<close>
  unchanged, one round of the loop does the same on \<^verbatim>\<open>b""\<close> as on \<^verbatim>\<open>None\<close>, and no
  entry of the list is the string \<^verbatim>\<open>0\<close>, so no \<^verbatim>\<open>0*\<close> pair is emitted.
\<close>

theorem empty_field_like_absent:
  assumes "revision self' = revision self"
    and "pdf_security_handler (pdf self) = Inr handler"
    and "pdf_security_handler (pdf self') = Inr handler'"
    and "\<forall>key \<in> set keys. key handler' = (if key handler = Some [] then None else key handler)"
  shows "get_passwords self' = get_passwords self
       \<and> passwords_step m (Some []) passwords = passwords_step m None passwords
       \<and> (\<exists>ps. passwords_list self = Inr ps \<and> ''0'' \<notin> set ps)"
proof -
  have s: "passwords_step k (if a = Some [] then None else a) [] = passwords_step k a []" for k a
    by (simp add: passwords_step_def)
  have "passwords_list self' = passwords_list self"
    using assms(1,4)
    by (simp add: passwords_list_unfold [OF assms(2)] passwords_list_unfold [OF assms(3)]
        keys_def s)
  moreover obtain ps where ps: "passwords_list self = Inr ps"
    using passwords_list_unfold [OF assms(2)] by blast
  moreover from ps have "''0'' \<notin> set ps" by (rule zero_not_emitted)
  ultimately show ?thesis
    by (simp add: get_passwords_def passwords_step_def)
qed

theorem empty_field_like_absent_witness:
  "revision extractor_r4 = revision extractor_r4_empty_seed
   \<and> pdf_security_handler (pdf extractor_r4_empty_seed) = Inr handler_r4_empty_seed
   \<and> pdf_security_handler (pdf extractor_r4) = Inr handler_r4
   \<and> oeseed handler_r4_empty_seed = Some []
   \<and> oeseed handler_r4 = None
   \<and> get_passwords extractor_r4 = get_passwords extractor_r4_empty_seed
   \<and> get_passwords extractor_r4_empty_seed =
       Inr (join ''*'' [''32'', replicate 64 CHR ''2'', ''32'', replicate 64 CHR ''1''])"
proof -
  have r: "revision extractor_r4 = revision extractor_r4_empty_seed"
    by (simp add: extractor_r4_empty_seed_def)
  have h: "pdf_security_handler (pdf extractor_r4_empty_seed) = Inr handler_r4_empty_seed"
    by (simp add: extractor_r4_empty_seed_def)
  have h': "pdf_security_handler (pdf extractor_r4) = Inr handler_r4"
    by (simp add: extractor_r4_def reader_r4_def)
  have k: "\<forall>key \<in> set keys.
           key handler_r4 =
             (if key handler_r4_empty_seed = Some [] then None else key handler_r4_empty_seed)"
    by (simp add: keys_def handler_r4_empty_seed_def handler_r4_def)
  have e: "oeseed handler_r4_empty_seed = Some []"
    by (simp add: handler_r4_empty_seed_def)
  have a: "oeseed handler_r4 = None"
    by (simp add: handler_r4_def)
  have g: "get_passwords extractor_r4 =
       Inr (join ''*'' [''32'', replicate 64 CHR ''2'', ''32'', replicate 64 CHR ''1''])"
    by code_simp
  from empty_field_like_absent [OF r h h' k]
  have "get_passwords extractor_r4 = get_passwords extractor_r4_empty_seed" by blast
  with r h h' e a g show ?thesis by simp
qed

subsection \<open>Order of the password fields\<close>

text \<open>
  C2, as the code has it. The list joined by \<^verbatim>\<open>get_passwords\<close> is the concatenation of
  what the four attributes of the handler contribute, in the order of the tuple
  \<^verbatim>\<open>keys\<close>: \<^verbatim>\<open>udata\<close> (user data) first, then \<^verbatim>\<open>odata\<close> (owner data),
  \<^verbatim>\<open>oeseed\<close>, \<^verbatim>\<open>ueseed\<close>. An absent attribute contributes nothing, a non-empty one
  the pair of its decimal length and its hex, and \<^verbatim>\<open>get_passwords\<close> joins the list
  with \<^verbatim>\<open>*\<close>.
\<close>

theorem password_fields_order:
  "(pdf_security_handler (pdf self) = Inr handler \<longrightarrow>
      passwords_list self =
        Inr (passwords_step (get_key_length (revision self)) (udata handler) []
           @ passwords_step (get_key_length (revision self)) (odata handler) []
           @ passwords_step (get_key_length (revision self)) (oeseed handler) []
           @ passwords_step (get_key_length (revision self)) (ueseed handler) []))
   \<and> (passwords_list self = Inr ps \<longrightarrow> get_passwords self = Inr (join ''*'' ps))
   \<and> passwords_step m None [] = []
   \<and> (data \<noteq> [] \<longrightarrow>
        passwords_step m (Some data) [] = [str_nat (length (take m data)), hex (take m data)])"
  using passwords_list_unfold [of self handler]
  by (simp add: get_passwords_def passwords_step_None passwords_step_Some)

theorem password_fields_order_witness:
  "pdf_security_handler (pdf extractor_r4) = Inr handler_r4
   \<and> passwords_list extractor_r4 =
       Inr [''32'', replicate 64 CHR ''2'', ''32'', replicate 64 CHR ''1'']
   \<and> get_passwords extractor_r4 =
       Inr (join ''*'' [''32'', replicate 64 CHR ''2'', ''32'', replicate 64 CHR ''1''])
   \<and> [0x22 :: byte] \<noteq> []
   \<and> passwords_step 32 (Some [0x22]) [] = [''1'', ''22'']"
proof -
  let ?ps = "[''32'', replicate 64 CHR ''2'', ''32'', replicate 64 CHR ''1'']"
  have h: "pdf_security_handler (pdf extractor_r4) = Inr handler_r4"
    by (simp add: extractor_r4_def reader_r4_def)
  have s: "passwords_step (get_key_length (revision extractor_r4)) (udata handler_r4) []
         @ passwords_step (get_key_length (revision extractor_r4)) (odata handler_r4) []
         @ passwords_step (get_key_length (revision extractor_r4)) (oeseed handler_r4) []
         @ passwords_step (get_key_length (revision extractor_r4)) (ueseed handler_r4) []
         = ?ps"
    by code_simp
  have n: "str_nat (Suc 0) = ''1''" by code_simp
  have x: "hex [0x22 :: byte] = ''22''" by code_simp
  note t = password_fields_order
      [where self = extractor_r4 and handler = handler_r4 and ps = ?ps and m = 32
         and data = "[0x22]"]
  from t h s have a: "passwords_list extractor_r4 = Inr ?ps" by simp
  from t a have b: "get_passwords extractor_r4 = Inr (join ''*'' ?ps)" by blast
  from t have "[0x22 :: byte] \<noteq> [] \<longrightarrow>
      passwords_step 32 (Some [0x22]) [] = [str_nat (length (take 32 [0x22 :: byte])),
        hex (take 32 [0x22 :: byte])]" by blast
  then have c: "passwords_step 32 (Some [0x22]) [] = [''1'', ''22'']"
    by (simp add: n x)
  from h a b c show ?thesis by simp
qed

text \<open>
  The order claimed for C2, owner data before user data, is not the code's: with
  \<^verbatim>\<open>/O\<close> of bytes \<^verbatim>\<open>0x11\<close> and \<^verbatim>\<open>/U\<close> of bytes \<^verbatim>\<open>0x22\<close>, the user data come first.
\<close>

theorem password_fields_order_counterexample:
  "pdf_security_handler (pdf extractor_r4) = Inr handler_r4
   \<and> udata handler_r4 = Some (replicate 32 0x22)
   \<and> odata handler_r4 = Some (replicate 32 0x11)
   \<and> get_passwords extractor_r4 =
       Inr (join ''*'' [''32'', replicate 64 CHR ''2'', ''32'', replicate 64 CHR ''1''])
   \<and> get_passwords extractor_r4 \<noteq>
       Inr (join ''*'' [''32'', replicate 64 CHR ''1'', ''32'', replicate 64 CHR ''2''])"
  by code_simp

subsection \<open>Field presence\<close>

text \<open>
  The claim C3 that a revision 5 or 6 fingerprint never holds the legacy fields fails:
  \<^verbatim>\<open>get_passwords\<close> reads the same four attributes whatever the revision, and the
  revision 6 handler that holds \<^verbatim>\<open>udata\<close> and \<^verbatim>\<open>odata\<close> gets both emitted.
\<close>

theorem field_presence_counterexample:
  "revision extractor_r6 = PyInt 6
   \<and> pdf_security_handler (pdf extractor_r6) = Inr handler_r6
   \<and> udata handler_r6 = Some (replicate 48 0x22)
   \<and> odata handler_r6 = Some (replicate 48 0x11)
   \<and> get_passwords extractor_r6 =
       Inr (join ''*'' [''48'', replicate 96 CHR ''2'', ''48'', replicate 96 CHR ''1'',
                        ''32'', replicate 64 CHR ''a'', ''32'', replicate 64 CHR ''b''])"
  by code_simp

text \<open>
  C3, as the code has it. Presence follows the handler, not the revision: an attribute
  contributes nothing exactly when it is \<^verbatim>\<open>None\<close> or empty, and under any revision two
  strings are emitted for each field of the handler that passes the test. So the seeds
  are missing from the list when the handler holds no seed, and the legacy fields are
  missing when the handler holds no legacy field.
\<close>

theorem field_presence_follows_handler:
  assumes "pdf_security_handler (pdf self) = Inr handler"
  shows "(passwords_step m a [] = [] \<longleftrightarrow> a = None \<or> a = Some [])
   \<and> (\<exists>ps. passwords_list (self\<lparr>revision := rv\<rparr>) = Inr ps
          \<and> length ps = 2 * length (present_fields handler))
   \<and> (\<exists>ps. passwords_list self = Inr ps \<and> length ps = 2 * length (present_fields handler))
   \<and> ((oeseed handler = None \<or> oeseed handler = Some [])
       \<and> (ueseed handler = None \<or> ueseed handler = Some [])
      \<longrightarrow> passwords_list self =
            Inr (passwords_step (get_key_length (revision self)) (udata handler) []
               @ passwords_step (get_key_length (revision self)) (odata handler) []))
   \<and> ((udata handler = None \<or> udata handler = Some [])
       \<and> (odata handler = None \<or> odata handler = Some [])
      \<longrightarrow> passwords_list self =
            Inr (passwords_step (get_key_length (revision self)) (oeseed handler) []
               @ passwords_step (get_key_length (revision self)) (ueseed handler) []))"
proof -
  have h': "pdf_security_handler (pdf (self\<lparr>revision := rv\<rparr>)) = Inr handler"
    using assms by simp
  have a: "\<exists>ps. passwords_list (self\<lparr>revision := rv\<rparr>) = Inr ps
          \<and> length ps = 2 * length (present_fields handler)"
    by (simp add: passwords_list_present [OF h'] concat_pairs_length)
  have b: "\<exists>ps. passwords_list self = Inr ps \<and> length ps = 2 * length (present_fields handler)"
    by (simp add: passwords_list_present [OF assms] concat_pairs_length)
  from a b show ?thesis
    using passwords_list_unfold [OF assms] passwords_step_eq_Nil
    by auto
qed

theorem field_presence_follows_handler_witness:
  "passwords_step 32 (Some []) [] = []
   \<and> pdf_security_handler (pdf extractor_r4) = Inr handler_r4
   \<and> oeseed handler_r4 = None
   \<and> ueseed handler_r4 = None
   \<and> passwords_list extractor_r4 =
       Inr [''32'', replicate 64 CHR ''2'', ''32'', replicate 64 CHR ''1'']
   \<and> pdf_security_handler (pdf extractor_r6_oe_only) = Inr handler_oe_only
   \<and> udata handler_oe_only = None
   \<and> odata handler_oe_only = None
   \<and> passwords_list extractor_r6_oe_only = Inr [''16'', replicate 32 CHR ''a'']"
proof -
  have h4: "pdf_security_handler (pdf extractor_r4) = Inr handler_r4"
    by (simp add: extractor_r4_def reader_r4_def)
  have h6: "pdf_security_handler (pdf extractor_r6_oe_only) = Inr handler_oe_only"
    by (simp add: extractor_r6_oe_only_def)
  have oe: "oeseed handler_r4 = None" and ue: "ueseed handler_r4 = None"
    by (simp_all add: handler_r4_def)
  have u: "udata handler_oe_only = None" and o: "odata handler_oe_only = None"
    by (simp_all add: handler_oe_only_def)
  have a: "passwords_step (get_key_length (revision extractor_r4)) (udata handler_r4) []
         @ passwords_step (get_key_length (revision extractor_r4)) (odata handler_r4) []
         = [''32'', replicate 64 CHR ''2'', ''32'', replicate 64 CHR ''1'']"
    by code_simp
  have b: "passwords_step (get_key_length (revision extractor_r6_oe_only)) (oeseed handler_oe_only) []
         @ passwords_step (get_key_length (revision extractor_r6_oe_only)) (ueseed handler_oe_only) []
         = [''16'', replicate 32 CHR ''a'']"
    by code_simp
  note t4 = field_presence_follows_handler
      [OF h4, where m = 32 and a = "Some []" and rv = "PyInt 6"]
  note t6 = field_presence_follows_handler
      [OF h6, where m = 32 and a = "Some []" and rv = "PyInt 6"]
  from t4 have c: "passwords_step 32 (Some []) [] = []" by blast
  from t4 oe ue a have d: "passwords_list extractor_r4 =
       Inr [''32'', replicate 64 CHR ''2'', ''32'', replicate 64 CHR ''1'']"
    by simp
  from t6 u o b have e: "passwords_list extractor_r6_oe_only = Inr [''16'', replicate 32 CHR ''a'']"
    by simp
  from c h4 oe ue d h6 u o e show ?thesis by blast
qed

subsection \<open>Construction and serialisation\<close>


lemma init_InrD:
  "PdfHashExtractor_init (Inr p) = Inr self \<Longrightarrow>
   \<exists>d perm rv. pdf_encrypt_dict p = Some d \<and> d \<noteq> [] \<and> map_of d ''/P'' = Some perm
     \<and> map_of d ''/R'' = Some rv
     \<and> self = \<lparr>pdf = p, encrypt_dict = d, algorithm = dict_get d ''/V'' PyNone,
          length_attr = dict_get d ''/Length'' (PyInt 40), permissions = perm, revision = rv\<rparr>"
  by (auto simp: PdfHashExtractor_init_def dict_getitem_def Let_def
      split: option.splits if_splits sum.splits)

lemma parse_fields_Inr:
  "get_passwords self = Inr pw \<Longrightarrow> encrypt_metadata self = Inr em \<Longrightarrow>
   document_id self = Inr did \<Longrightarrow>
   parse_fields self =
     Inr [PyStr (''$pdf$'' @ str (algorithm self)), revision self, length_attr self,
          permissions self, PyStr em, PyInt (int (length did)), PyStr (hex did), PyStr pw]"
  by (simp add: parse_fields_def)

lemma parse_fields_InrD:
  "parse_fields self = Inr fs \<Longrightarrow>
   \<exists>pw em did. get_passwords self = Inr pw \<and> encrypt_metadata self = Inr em
     \<and> document_id self = Inr did"
  by (auto simp: parse_fields_def split: sum.splits)

lemma parse_Inr:
  "get_passwords self = Inr pw \<Longrightarrow> encrypt_metadata self = Inr em \<Longrightarrow>
   document_id self = Inr did \<Longrightarrow>
   parse self =
     Inr (''$pdf$'' @ str (algorithm self) @ ''*'' @ str (revision self) @ ''*''
          @ str (length_attr self) @ ''*'' @ str (permissions self) @ ''*''
          @ em @ ''*'' @ str_nat (length did) @ ''*'' @ hex did @ ''*'' @ pw)"
  by (simp add: parse_def parse_fields_def str_int_int)

lemma parse_InrD:
  "parse self = Inr s \<Longrightarrow>
   \<exists>pw em did. get_passwords self = Inr pw \<and> encrypt_metadata self = Inr em
     \<and> document_id self = Inr did"
  by (auto simp: parse_def parse_fields_def split: sum.splits)


lemma extract_pdf_SomeD:
  "extract_pdf h reader = Some s \<Longrightarrow>
   h \<and> (\<exists>self. PdfHashExtractor_init reader = Inr self \<and> parse self = Inr s)"
  by (auto simp: extract_pdf_def split: if_splits sum.splits)




lemma str_int_3904: "str_int (- 3904) = ''-3904''"
  by code_simp

lemma str_int_neg: "i < 0 \<Longrightarrow> str_int i = CHR ''-'' # str_nat (nat (- i))"
  by (simp add: str_int_def)

subsection \<open>Consistency of the emitted pairs\<close>

text \<open>
  C10. The list of \<^verbatim>\<open>get_passwords\<close> is made of pairs, one per field of the handler
  that passes the test: the first string of a pair reads, as a decimal, the byte count
  of the cut field; the second is the hex of the cut field and has twice that many
  characters; the count is at most \<^verbatim>\<open>max_key_length\<close>. In the fields of \<^verbatim>\<open>parse\<close>,
  the sixth reads the byte count of the document identifier and the seventh, its hex,
  is twice as long.
\<close>

theorem emitted_pairs_consistent:
  "(\<forall>ps. passwords_list self = Inr ps \<longrightarrow>
      (\<exists>handler. pdf_security_handler (pdf self) = Inr handler
         \<and> length ps = 2 * length (present_fields handler)
         \<and> (\<forall>i < length (present_fields handler).
              nat_of_decimal (ps ! (2 * i)) =
                length (take (get_key_length (revision self)) (present_fields handler ! i))
              \<and> ps ! (2 * i + 1) =
                hex (take (get_key_length (revision self)) (present_fields handler ! i))
              \<and> length (ps ! (2 * i + 1)) = 2 * nat_of_decimal (ps ! (2 * i))
              \<and> nat_of_decimal (ps ! (2 * i)) \<le> get_key_length (revision self))))
   \<and> (\<forall>fs. parse_fields self = Inr fs \<longrightarrow>
        length fs = 8
        \<and> length (str (fs ! 6)) = 2 * nat_of_decimal (str (fs ! 5)))"
proof -
  let ?m = "get_key_length (revision self)"
  let ?f = "\<lambda>data. str_nat (length (take ?m data))"
  let ?g = "\<lambda>data. hex (take ?m data)"
  have pairs: "\<exists>handler. pdf_security_handler (pdf self) = Inr handler
         \<and> length ps = 2 * length (present_fields handler)
         \<and> (\<forall>i < length (present_fields handler).
              nat_of_decimal (ps ! (2 * i)) = length (take ?m (present_fields handler ! i))
              \<and> ps ! (2 * i + 1) = hex (take ?m (present_fields handler ! i))
              \<and> length (ps ! (2 * i + 1)) = 2 * nat_of_decimal (ps ! (2 * i))
              \<and> nat_of_decimal (ps ! (2 * i)) \<le> ?m)"
    if p: "passwords_list self = Inr ps" for ps
  proof -
    from p obtain handler where h: "pdf_security_handler (pdf self) = Inr handler"
      using passwords_list_InrD by blast
    from passwords_list_present [OF h] p
    have pl: "ps = concat (map (\<lambda>d. [?f d, ?g d]) (present_fields handler))"
      by simp
    have len: "length ps = 2 * length (present_fields handler)"
      unfolding pl by (rule concat_pairs_length)
    have "nat_of_decimal (ps ! (2 * i)) = length (take ?m (present_fields handler ! i))
          \<and> ps ! (2 * i + 1) = hex (take ?m (present_fields handler ! i))
          \<and> length (ps ! (2 * i + 1)) = 2 * nat_of_decimal (ps ! (2 * i))
          \<and> nat_of_decimal (ps ! (2 * i)) \<le> ?m"
      if "i < length (present_fields handler)" for i
      using concat_pairs_nth [OF that, of ?f ?g]
      unfolding pl by (simp add: nat_of_decimal_str_nat length_hex)
    with h len show ?thesis by blast
  qed
  have doc: "length fs = 8 \<and> length (str (fs ! 6)) = 2 * nat_of_decimal (str (fs ! 5))"
    if "parse_fields self = Inr fs" for fs
  proof -
    from that obtain pw em did where d: "get_passwords self = Inr pw"
      "encrypt_metadata self = Inr em" "document_id self = Inr did"
      using parse_fields_InrD by blast
    from parse_fields_Inr [OF d] that
    have "fs = [PyStr (''$pdf$'' @ str (algorithm self)), revision self, length_attr self,
          permissions self, PyStr em, PyInt (int (length did)),
          PyStr (hex did), PyStr pw]" by simp
    then show ?thesis by (simp add: str_int_int nat_of_decimal_str_nat length_hex)
  qed
  from pairs doc show ?thesis by blast
qed

theorem emitted_pairs_consistent_witness:
  "passwords_list extractor_r4 =
     Inr [''32'', replicate 64 CHR ''2'', ''32'', replicate 64 CHR ''1'']
   \<and> pdf_security_handler (pdf extractor_r4) = Inr handler_r4
   \<and> 0 < length (present_fields handler_r4)
   \<and> nat_of_decimal ''32'' = 32
   \<and> length (replicate 64 CHR ''2'') = 2 * nat_of_decimal ''32''
   \<and> parse_fields extractor_r4 =
       Inr [PyStr ''$pdf$2'', PyInt 4, PyInt 128, PyInt (- 3904), PyStr ''0'', PyInt 4,
            PyStr ''deadbeef'',
            PyStr (join ''*'' [''32'', replicate 64 CHR ''2'', ''32'', replicate 64 CHR ''1''])]
   \<and> length ''deadbeef'' = 2 * nat_of_decimal (str (PyInt 4))"
proof -
  let ?ps = "[''32'', replicate 64 CHR ''2'', ''32'', replicate 64 CHR ''1'']"
  let ?fs = "[PyStr ''$pdf$2'', PyInt 4, PyInt 128, PyInt (- 3904), PyStr ''0'', PyInt 4,
            PyStr ''deadbeef'', PyStr (join ''*'' ?ps)]"
  have l: "passwords_list extractor_r4 = Inr ?ps"
    by code_simp
  have h: "pdf_security_handler (pdf extractor_r4) = Inr handler_r4"
    by (simp add: extractor_r4_def reader_r4_def)
  have p: "present_fields handler_r4 = [replicate 32 0x22, replicate 32 0x11]"
    by code_simp
  have k: "get_key_length (revision extractor_r4) = 32"
    by code_simp
  have f: "parse_fields extractor_r4 = Inr ?fs"
    by code_simp
  have i: "0 < length (present_fields handler_r4)"
    by (simp add: p)
  note t = emitted_pairs_consistent [of extractor_r4]
  from t l obtain handler where "pdf_security_handler (pdf extractor_r4) = Inr handler"
    and a: "\<forall>i < length (present_fields handler).
              nat_of_decimal (?ps ! (2 * i)) =
                length (take (get_key_length (revision extractor_r4)) (present_fields handler ! i))
              \<and> length (?ps ! (2 * i + 1)) = 2 * nat_of_decimal (?ps ! (2 * i))"
    by blast
  with h have "handler = handler_r4" by simp
  with a i have "nat_of_decimal (?ps ! (2 * 0)) =
                length (take (get_key_length (revision extractor_r4)) (present_fields handler_r4 ! 0))
              \<and> length (?ps ! (2 * 0 + 1)) = 2 * nat_of_decimal (?ps ! (2 * 0))"
    by blast
  then have b: "nat_of_decimal ''32'' = 32
      \<and> length (replicate 64 CHR ''2'') = 2 * nat_of_decimal ''32''"
    by (simp add: p k)
  from t f have "length (str (?fs ! 6)) = 2 * nat_of_decimal (str (?fs ! 5))"
    by blast
  then have c: "length ''deadbeef'' = 2 * nat_of_decimal (str (PyInt 4))"
    by simp
  from l h i b f c show ?thesis by blast
qed

subsection \<open>Required entries of the encryption dictionary\<close>



subsection \<open>Permissions\<close>

text \<open>
  C6. The object under \<^verbatim>\<open>/P\<close> is stored as it is and serialised by \<^verbatim>\<open>str\<close>: when it
  is the integer \<^verbatim>\<open>perm\<close>, the fourth field of the fingerprint is the signed decimal of
  \<^verbatim>\<open>perm\<close>, which reads back as \<^verbatim>\<open>perm\<close>; a negative value starts with the minus sign
  followed by the decimal of its magnitude, \<^verbatim>\<open>-3904\<close> gives \<^verbatim>\<open>-3904\<close>, and for a value
  in the signed 32-bit range the field denotes the signed reading of its 32-bit
  two's-complement word.
\<close>

theorem permissions_sign_preserved:
  assumes "pdf_encrypt_dict p = Some d"
    and "map_of d ''/P'' = Some (PyInt perm)"
    and "PdfHashExtractor_init (Inr p) = Inr self"
    and "parse self = Inr s"
  shows "permissions self = PyInt perm
       \<and> (\<exists>did em pw. document_id self = Inr did \<and> encrypt_metadata self = Inr em
            \<and> get_passwords self = Inr pw
            \<and> s = ''$pdf$'' @ str (algorithm self) @ ''*'' @ str (revision self) @ ''*''
                @ str (length_attr self) @ ''*'' @ str_int perm @ ''*''
                @ em @ ''*'' @ str_nat (length did) @ ''*'' @ hex did @ ''*'' @ pw)
       \<and> int_of_decimal (str_int perm) = perm
       \<and> (perm < 0 \<longrightarrow> str_int perm = CHR ''-'' # str_nat (nat (- perm)))
       \<and> (perm = - 3904 \<longrightarrow> str_int perm = ''-3904'')
       \<and> (- (2 ^ 31) \<le> perm \<and> perm < 2 ^ 31 \<longrightarrow>
            int_of_decimal (str_int perm) = sint (word_of_int perm :: 32 word))"
proof -
  from assms(1-3) have perm: "permissions self = PyInt perm"
    by (auto dest!: init_InrD)
  from assms(4) obtain pw em did where d: "get_passwords self = Inr pw"
    "encrypt_metadata self = Inr em" "document_id self = Inr did"
    using parse_InrD by blast
  from parse_Inr [OF d] assms(4) perm
  have s: "s = ''$pdf$'' @ str (algorithm self) @ ''*'' @ str (revision self) @ ''*''
                @ str (length_attr self) @ ''*'' @ str_int perm @ ''*''
                @ em @ ''*'' @ str_nat (length did) @ ''*'' @ hex did @ ''*'' @ pw"
    by simp
  have w: "sint (word_of_int perm :: 32 word) = perm"
    if "- (2 ^ 31) \<le> perm" and "perm < 2 ^ 31"
    using that by (simp add: sint_sbintrunc' signed_take_bit_int_eq_self)
  from d s have "\<exists>did em pw. document_id self = Inr did \<and> encrypt_metadata self = Inr em
            \<and> get_passwords self = Inr pw
            \<and> s = ''$pdf$'' @ str (algorithm self) @ ''*'' @ str (revision self) @ ''*''
                @ str (length_attr self) @ ''*'' @ str_int perm @ ''*''
                @ em @ ''*'' @ str_nat (length did) @ ''*'' @ hex did @ ''*'' @ pw"
    by blast
  with perm w show ?thesis
    by (simp add: int_of_decimal_str_int str_int_neg str_int_3904)
qed

theorem permissions_sign_preserved_witness:
  "pdf_encrypt_dict reader_r4 = Some dict_r4
   \<and> map_of dict_r4 ''/P'' = Some (PyInt (- 3904))
   \<and> PdfHashExtractor_init (Inr reader_r4) = Inr extractor_r4
   \<and> parse extractor_r4 =
       Inr (''$pdf$2*4*128*-3904*0*4*deadbeef*''
            @ join ''*'' [''32'', replicate 64 CHR ''2'', ''32'', replicate 64 CHR ''1''])
   \<and> permissions extractor_r4 = PyInt (- 3904)
   \<and> (- 3904 :: int) < 0
   \<and> str_int (- 3904) = ''-3904''
   \<and> int_of_decimal (str_int (- 3904)) = sint (word_of_int (- 3904) :: 32 word)"
proof -
  have h1: "pdf_encrypt_dict reader_r4 = Some dict_r4"
    by (simp add: reader_r4_def)
  have h2: "map_of dict_r4 ''/P'' = Some (PyInt (- 3904))"
    by (simp add: dict_r4_def)
  have h3: "PdfHashExtractor_init (Inr reader_r4) = Inr extractor_r4"
    by code_simp
  have h4: "parse extractor_r4 =
      Inr (''$pdf$2*4*128*-3904*0*4*deadbeef*''
            @ join ''*'' [''32'', replicate 64 CHR ''2'', ''32'', replicate 64 CHR ''1''])"
    by code_simp
  note t = permissions_sign_preserved [OF h1 h2 h3 h4]
  from t have a: "permissions extractor_r4 = PyInt (- 3904)" by blast
  from t have b: "str_int (- 3904) = ''-3904''" by blast
  from t have "- (2 ^ 31) \<le> (- 3904 :: int) \<and> (- 3904 :: int) < 2 ^ 31 \<longrightarrow>
      int_of_decimal (str_int (- 3904)) = sint (word_of_int (- 3904) :: 32 word)"
    by blast
  then have c: "int_of_decimal (str_int (- 3904)) = sint (word_of_int (- 3904) :: 32 word)"
    by simp
  from h1 h2 h3 h4 a b c show ?thesis by simp
qed

subsection \<open>Characters of the fingerprint\<close>















lemma passwords_loop_cong:
  "pdf_security_handler (pdf self) = pdf_security_handler (pdf self') \<Longrightarrow>
   passwords_loop self m ks acc = passwords_loop self' m ks acc"
  by (induction ks arbitrary: acc) (simp_all split: sum.splits)

lemma parse_cong:
  assumes "algorithm self = algorithm self'"
    and "revision self = revision self'"
    and "length_attr self = length_attr self'"
    and "permissions self = permissions self'"
    and "document_id self = document_id self'"
    and "pdf_security_handler (pdf self) = pdf_security_handler (pdf self')"
  shows "parse self = parse self'"
proof -
  have "passwords_list self = passwords_list self'"
    unfolding passwords_list_def assms(2) by (rule passwords_loop_cong [OF assms(6)])
  then have "get_passwords self = get_passwords self'"
    by (simp add: get_passwords_def)
  moreover have "encrypt_metadata self = encrypt_metadata self'"
    by (simp add: encrypt_metadata_def assms(6))
  ultimately have "parse_fields self = parse_fields self'"
    by (simp add: parse_fields_def assms(1-5) split: sum.splits)
  then show ?thesis by (simp add: parse_def)
qed

subsection \<open>Format of the fingerprint\<close>



subsection \<open>Determinism\<close>

text \<open>
  C7. The fingerprint is a function of what the extractor reads: the entries \<^verbatim>\<open>/V\<close>,
  \<^verbatim>\<open>/Length\<close>, \<^verbatim>\<open>/P\<close> and \<^verbatim>\<open>/R\<close> of the encryption dictionary, the first element of
  the document identifier and the security handler. Two successful runs on inputs that
  agree on these, and so two runs on the same input, yield the same string.
\<close>

theorem extraction_deterministic:
  assumes "extract_pdf h (Inr p) = Some s"
    and "extract_pdf h' (Inr p') = Some s'"
    and "pdf_encrypt_dict p = Some d"
    and "pdf_encrypt_dict p' = Some d'"
    and "\<forall>key \<in> {''/V'', ''/Length'', ''/P'', ''/R''}. map_of d key = map_of d' key"
    and "pdf_document_id p = Inr i"
    and "pdf_document_id p' = Inr i'"
    and "fst i = fst i'"
    and "pdf_security_handler p = pdf_security_handler p'"
  shows "s = s'"
proof -
  from assms(1) obtain self where init: "PdfHashExtractor_init (Inr p) = Inr self"
    and parse: "parse self = Inr s"
    using extract_pdf_SomeD by blast
  from assms(2) obtain self' where init': "PdfHashExtractor_init (Inr p') = Inr self'"
    and parse': "parse self' = Inr s'"
    using extract_pdf_SomeD by blast
  from init assms(3) obtain perm rv where self: "self =
      \<lparr>pdf = p, encrypt_dict = d, algorithm = dict_get d ''/V'' PyNone,
       length_attr = dict_get d ''/Length'' (PyInt 40), permissions = perm, revision = rv\<rparr>"
    and pr: "map_of d ''/P'' = Some perm" "map_of d ''/R'' = Some rv"
    by (auto dest!: init_InrD)
  from init' assms(4) obtain perm' rv' where self': "self' =
      \<lparr>pdf = p', encrypt_dict = d', algorithm = dict_get d' ''/V'' PyNone,
       length_attr = dict_get d' ''/Length'' (PyInt 40), permissions = perm', revision = rv'\<rparr>"
    and pr': "map_of d' ''/P'' = Some perm'" "map_of d' ''/R'' = Some rv'"
    by (auto dest!: init_InrD)
  from assms(5) have eq: "map_of d ''/V'' = map_of d' ''/V''"
    "map_of d ''/Length'' = map_of d' ''/Length''"
    "map_of d ''/P'' = map_of d' ''/P''" "map_of d ''/R'' = map_of d' ''/R''"
    by simp_all
  from eq pr pr' have same: "perm = perm'" "rv = rv'" by simp_all
  have "parse self = parse self'"
  proof (rule parse_cong)
    show "algorithm self = algorithm self'" by (simp add: self self' dict_get_def eq)
    show "revision self = revision self'" by (simp add: self self' same)
    show "length_attr self = length_attr self'" by (simp add: self self' dict_get_def eq)
    show "permissions self = permissions self'" by (simp add: self self' same)
    show "document_id self = document_id self'"
      by (simp add: self self' document_id_def assms(6-8))
    show "pdf_security_handler (pdf self) = pdf_security_handler (pdf self')"
      by (simp add: self self' assms(9))
  qed
  with parse parse' show ?thesis by simp
qed

theorem extraction_deterministic_witness:
  "extract_pdf True (Inr reader_r4) =
     Some (''$pdf$2*4*128*-3904*0*4*deadbeef*''
           @ join ''*'' [''32'', replicate 64 CHR ''2'', ''32'', replicate 64 CHR ''1''])
   \<and> extract_pdf True (Inr reader_r4_variant) = extract_pdf True (Inr reader_r4)
   \<and> reader_r4_variant \<noteq> reader_r4"
proof -
  let ?fp = "''$pdf$2*4*128*-3904*0*4*deadbeef*''
             @ join ''*'' [''32'', replicate 64 CHR ''2'', ''32'', replicate 64 CHR ''1'']"
  let ?d' = "(''/Filter'', PyStr ''/Standard'') # dict_r4"
  have x: "extract_pdf True (Inr reader_r4) = Some ?fp"
    by code_simp
  have "extract_pdf True (Inr reader_r4_variant) \<noteq> None"
    by code_simp
  then obtain s' where x': "extract_pdf True (Inr reader_r4_variant) = Some s'"
    by blast
  have d: "pdf_encrypt_dict reader_r4 = Some dict_r4"
    and i: "pdf_document_id reader_r4 = Inr ([0xDE, 0xAD, 0xBE, 0xEF], [0x01])"
    by (simp_all add: reader_r4_def)
  have d': "pdf_encrypt_dict reader_r4_variant = Some ?d'"
    and i': "pdf_document_id reader_r4_variant = Inr ([0xDE, 0xAD, 0xBE, 0xEF], [0x02, 0x03])"
    and sh: "pdf_security_handler reader_r4 = pdf_security_handler reader_r4_variant"
    by (simp_all add: reader_r4_variant_def)
  have k: "\<forall>key \<in> {''/V'', ''/Length'', ''/P'', ''/R''}. map_of dict_r4 key = map_of ?d' key"
    by simp
  have f: "fst ([0xDE, 0xAD, 0xBE, 0xEF :: byte], [0x01 :: byte])
         = fst ([0xDE, 0xAD, 0xBE, 0xEF :: byte], [0x02, 0x03 :: byte])"
    by simp
  have "?fp = s'"
    using x x' d d' k i i' f sh by (rule extraction_deterministic)
  with x x' have a: "extract_pdf True (Inr reader_r4_variant) = extract_pdf True (Inr reader_r4)"
    by simp
  have n: "reader_r4_variant \<noteq> reader_r4"
  proof
    assume "reader_r4_variant = reader_r4"
    then have "pdf_document_id reader_r4_variant = pdf_document_id reader_r4" by simp
    with i i' show False by simp
  qed
  from x a n show ?thesis by blast
qed

subsection \<open>Unencrypted documents\<close>

text \<open>
  C5. A document that the library reads without error and that has no encryption
  dictionary makes \<^verbatim>\<open>__init__\<close> raise \<^verbatim>\<open>RuntimeError("File not encrypted")\<close>, the
  code's form of the error kind NotEncrypted; \<^verbatim>\<open>parse\<close> is never reached, and
  \<^verbatim>\<open>extract_pdf\<close> returns \<^verbatim>\<open>None\<close> without writing any text.
\<close>

theorem not_encrypted_fails:
  assumes "pdf_encrypt_dict p = None"
  shows "PdfHashExtractor_init (Inr p) = Inl (RuntimeError ''File not encrypted'')
       \<and> extract_pdf have_pyhanko (Inr p) = None"
  using assms by (simp add: PdfHashExtractor_init_def extract_pdf_def)

theorem not_encrypted_fails_witness:
  "pdf_encrypt_dict reader_plain = None
   \<and> PdfHashExtractor_init (Inr reader_plain) = Inl (RuntimeError ''File not encrypted'')
   \<and> extract_pdf True (Inr reader_plain) = None"
proof -
  have h: "pdf_encrypt_dict reader_plain = None" by (simp add: reader_plain_def)
  show ?thesis using h not_encrypted_fails [OF h, of True] by simp
qed

end
